theory Spec2Isabelle
  imports Main
begin

section \<open>Strings as the source uses them\<close>

text \<open>
  Python \<open>str\<close> values are modelled as \<open>string\<close>, one \<open>char\<close> per code point
  below 256. \<open>py_isspace\<close> lists the code points below 256 that \<open>str.strip()\<close>
  removes; \<open>lower_char\<close> is \<open>str.lower()\<close> on that range.
\<close>

definition py_isspace :: "char \<Rightarrow> bool" where
  "py_isspace c = (of_char c \<in> {9, 10, 11, 12, 13, 28, 29, 30, 31, 32, 133, 160 :: nat})"

definition py_strip :: "string \<Rightarrow> string" where
  "py_strip s = rev (dropWhile py_isspace (rev (dropWhile py_isspace s)))"

definition lower_char :: "char \<Rightarrow> char" where
  "lower_char c =
     (let n = (of_char c :: nat)
      in if (65 \<le> n \<and> n \<le> 90) \<or> (192 \<le> n \<and> n \<le> 222 \<and> n \<noteq> 215)
         then char_of (n + 32) else c)"

definition py_lower :: "string \<Rightarrow> string" where
  "py_lower s = map lower_char s"

text \<open>\<open>startswith s w\<close> is \<open>s.startswith(w)\<close>; \<open>py_in w s\<close> is the test \<open>w in s\<close>.\<close>

fun startswith :: "string \<Rightarrow> string \<Rightarrow> bool" where
  "startswith s [] = True"
| "startswith [] (w # ws) = False"
| "startswith (c # cs) (w # ws) = (c = w \<and> startswith cs ws)"

fun py_in :: "string \<Rightarrow> string \<Rightarrow> bool" where
  "py_in w [] = (w = [])"
| "py_in w (c # cs) = (startswith (c # cs) w \<or> py_in w cs)"

section \<open>External collaborators\<close>

text \<open>
  The speech recogniser, the language model and the speech synthesiser are external
  services. A call either returns or raises; the outcome of each call is an input of
  the model. The motion sink (\<open>robot.goto_target\<close>), \<open>pyaudio.open\<close>, the console and
  the file system are taken to succeed; a read of the capture stream returns a frame or
  raises, and which it does is an input as well.
\<close>

datatype error = TranscriberFailed | ResponderFailed | SynthesizerFailed

subsection \<open>SpeechToText.transcribe\<close>

text \<open>
  \<^verbatim>\<open>
  def transcribe(self, audio_file):
      result = self.model.transcribe(audio_file)
      return result["text"].strip()
  \<close>
  The argument is the outcome of \<open>self.model.transcribe\<close>: the error raised or the
  text of the result.
\<close>

definition transcribe :: "error + string \<Rightarrow> error + string" where
  "transcribe backend = (case backend of Inl e \<Rightarrow> Inl e | Inr raw \<Rightarrow> Inr (py_strip raw))"

text \<open>The orchestrator's test \<open>not text.strip()\<close> in \<open>_process_audio\<close>.\<close>

definition is_silence :: "string \<Rightarrow> bool" where
  "is_silence text = (py_strip text = [])"

section \<open>AudioRecorder\<close>

text \<open>
  The fields of \<open>AudioRecorder\<close> that change: the frame buffer, the recording flag and
  the capture stream (\<open>None\<close> or the handle \<open>pyaudio.open\<close> returned); with them, the
  \<open>_record_loop\<close> threads that are running, each at its program counter.
  \<^verbatim>\<open>
  def _record_loop(self):
      while self.is_recording and self.stream:                # AtLoopTest
          try:
              data = self.stream.read(self.chunk, ...)        # InRead
              self.frames.append(data)                        # InRead
          except Exception:
              break
  \<close>
  A reader tests the flag only at the head of the loop: once past the test it blocks in
  the read and appends what the read returns, whatever the flag has become meanwhile.
\<close>

type_synonym frame = string

datatype reader_pc = AtLoopTest | InRead

record recorder =
  rec_frames :: "frame list"
  rec_is_recording :: bool
  rec_stream :: "nat option"
  rec_readers :: "reader_pc list"

definition new_recorder :: recorder where
  "new_recorder = \<lparr>rec_frames = [], rec_is_recording = False, rec_stream = None, rec_readers = []\<rparr>"

text \<open>
  \<^verbatim>\<open>
  def start_recording(self):
      if self.is_recording:
          return
      self.frames = []
      self.is_recording = True
      self.stream = self.pyaudio.open(...)
      self._record_thread = threading.Thread(target=self._record_loop, daemon=True)
      self._record_thread.start()
  \<close>
  \<open>h\<close> is the stream that \<open>pyaudio.open\<close> returns to this call.
\<close>

definition start_recording :: "nat \<Rightarrow> recorder \<Rightarrow> recorder" where
  "start_recording h r =
     (if rec_is_recording r then r
      else r\<lparr>rec_frames := [], rec_is_recording := True, rec_stream := Some h,
             rec_readers := rec_readers r @ [AtLoopTest]\<rparr>)"

text \<open>
  What a reader thread does next: the \<open>i\<close>-th reader evaluates the loop test, or its
  read returns a frame, which it appends, or its read raises (also when the stream has
  been closed or set to \<open>None\<close> under it), which ends it. An event whose reader is not
  at that point of the loop changes nothing.
\<close>

datatype reader_event = LoopTest nat | ReadReturns nat frame | ReadRaises nat

definition end_reader :: "nat \<Rightarrow> recorder \<Rightarrow> recorder" where
  "end_reader i r = r\<lparr>rec_readers := take i (rec_readers r) @ drop (Suc i) (rec_readers r)\<rparr>"

definition reader_step :: "reader_event \<Rightarrow> recorder \<Rightarrow> recorder" where
  "reader_step ev r =
     (case ev of
        LoopTest i \<Rightarrow>
          if i < length (rec_readers r) \<and> rec_readers r ! i = AtLoopTest then
            (if rec_is_recording r \<and> rec_stream r \<noteq> None
             then r\<lparr>rec_readers := (rec_readers r)[i := InRead]\<rparr>
             else end_reader i r)
          else r
      | ReadReturns i data \<Rightarrow>
          if i < length (rec_readers r) \<and> rec_readers r ! i = InRead
          then r\<lparr>rec_frames := rec_frames r @ [data],
                 rec_readers := (rec_readers r)[i := AtLoopTest]\<rparr>
          else r
      | ReadRaises i \<Rightarrow>
          if i < length (rec_readers r) \<and> rec_readers r ! i = InRead then end_reader i r
          else r)"

text \<open>
  \<^verbatim>\<open>
  def stop_recording(self):
      if not self.is_recording:
          return None
      self.is_recording = False
      time.sleep(0.1)  # Let recording thread finish
      if self.stream:
          self.stream.stop_stream(); self.stream.close(); self.stream = None
      if not self.frames:
          return None
      with tempfile.NamedTemporaryFile(suffix=".wav", delete=False) as f:
          temp_path = f.name
          ... write the joined frames ...
      return temp_path
  \<close>
  \<open>after_grace during r\<close> is the recorder when the method wakes from its sleep:
  the flag is clear and the readers have done \<open>during\<close>, in that order, while it
  slept. The buffer is tested after that. \<open>tmp\<close> is the name the temporary file gets.
  In both branches of \<open>if self.stream\<close> the stream is \<open>None\<close> afterwards.
\<close>

definition after_grace :: "reader_event list \<Rightarrow> recorder \<Rightarrow> recorder" where
  "after_grace during r = fold reader_step during (r\<lparr>rec_is_recording := False\<rparr>)"

definition stop_recording ::
  "string \<Rightarrow> reader_event list \<Rightarrow> recorder \<Rightarrow> recorder \<times> string option" where
  "stop_recording tmp during r =
     (if \<not> rec_is_recording r then (r, None)
      else
        let r1 = (after_grace during r)\<lparr>rec_stream := None\<rparr>
        in if rec_frames r1 = [] then (r1, None) else (r1, Some tmp))"

section \<open>ConversationLLM\<close>

datatype role = System | User | Assistant

type_synonym message = "role \<times> string"

definition system_prompt :: string where
  "system_prompt =
     ''You are Reachy, a friendly companion robot in a care home.\<newline>'' @
     ''You interact with elderly residents and help nursing staff.\<newline>\<newline>'' @
     ''Your personality:\<newline>'' @
     ''- Warm, patient, and caring\<newline>'' @
     ''- Speak clearly and not too fast\<newline>'' @
     ''- Use simple, easy-to-understand language\<newline>'' @
     ''- Be encouraging and positive\<newline>'' @
     ''- Show genuine interest in the person you're talking to\<newline>\<newline>'' @
     ''Keep responses concise (1-3 sentences) unless asked for more detail.\<newline>'' @
     ''If someone seems confused or distressed, be extra gentle and reassuring.\<newline>'' @
     ''You can tell jokes, share interesting facts, or just have a friendly chat.''"

text \<open>The slice \<open>xs[-n:]\<close> for \<open>n > 0\<close>.\<close>

definition py_last :: "nat \<Rightarrow> 'a list \<Rightarrow> 'a list" where
  "py_last n xs = drop (length xs - n) xs"

text \<open>
  \<^verbatim>\<open>
  def chat(self, user_message):
      self.conversation_history.append({"role": "user", "content": user_message})
      messages = [{"role": "system", "content": self.system_prompt}
                 ] + self.conversation_history[-10:]  # Keep last 10 exchanges
      response = self.client.chat.completions.create(model=..., messages=messages, ...)
      assistant_message = response.choices[0].message.content
      self.conversation_history.append({"role": "assistant", "content": assistant_message})
      return assistant_message
  \<close>
  \<open>chat_append_user\<close> is the first statement, \<open>chat_messages\<close> the request built from
  the history, \<open>chat_receive\<close> the rest, given the outcome of the request (the error
  raised, or the content of the first choice). \<open>chat\<close> is the whole method on the
  history: it returns the history it leaves and what the call returns or raises.
\<close>

definition chat_append_user :: "string \<Rightarrow> message list \<Rightarrow> message list" where
  "chat_append_user user_message h = h @ [(User, user_message)]"

definition chat_messages :: "message list \<Rightarrow> message list" where
  "chat_messages h = [(System, system_prompt)] @ py_last 10 h"

definition chat_receive :: "error + string \<Rightarrow> message list \<Rightarrow> message list \<times> (error + string)" where
  "chat_receive llm h =
     (case llm of
        Inl e \<Rightarrow> (h, Inl e)
      | Inr assistant_message \<Rightarrow> (h @ [(Assistant, assistant_message)], Inr assistant_message))"

definition chat :: "string \<Rightarrow> error + string \<Rightarrow> message list \<Rightarrow> message list \<times> (error + string)" where
  "chat user_message llm h = chat_receive llm (chat_append_user user_message h)"

text \<open>A sequence of \<open>chat\<close> calls, each with its message and the outcome of its request.\<close>

fun chats :: "(string \<times> (error + string)) list \<Rightarrow> message list \<Rightarrow> message list" where
  "chats [] h = h"
| "chats ((m, llm) # cs) h = chats cs (fst (chat m llm h))"

section \<open>RobotExpressions\<close>

text \<open>
  Each distinct \<open>robot.goto_target\<close> call of the source is one \<open>motion\<close>: the call
  blocks for its duration.
  \<^item> \<open>Neutral\<close>: \<open>idle\<close>, head \<open>create_head_pose()\<close>, antennas \<open>[0, 0]\<close>, 0.5 s;
  \<^item> \<open>ListenPose\<close>: \<open>listening_start\<close>, roll 8, antennas \<open>[0.3, 0.3]\<close>, 0.4 s;
  \<^item> \<open>ThinkPose\<close>: \<open>thinking\<close>, z 15, roll -10, antennas \<open>[0.2, -0.2]\<close>, 0.5 s;
  \<^item> \<open>SpeakLeft\<close>, \<open>SpeakRight\<close>: \<open>_speaking_animation\<close>, z 3 and z -3, 0.3 s each;
  \<^item> \<open>HappyUp\<close>, \<open>HappyDown\<close>: \<open>happy\<close>, y 15 with antennas \<open>[0.5, 0.5]\<close>, then the
    neutral head with antennas \<open>[0.2, 0.2]\<close>, 0.2 s each;
  \<^item> \<open>SadPose\<close>: \<open>sad\<close>, 0.8 s;
  \<^item> \<open>GreetUp\<close>, \<open>GreetSettle\<close>: \<open>greeting\<close>, 0.4 s and 0.3 s;
  \<^item> \<open>NodUp\<close>, \<open>NodDown\<close>: \<open>_nod_yes\<close>, y 15 and y -10, 0.25 s each;
  \<^item> \<open>ShakeLeft\<close>, \<open>ShakeRight\<close>: \<open>_shake_no\<close>, z 20 and z -20, 0.2 s each.
\<close>

datatype motion =
    Neutral | ListenPose | ThinkPose | SpeakLeft | SpeakRight | HappyUp | HappyDown
  | SadPose | GreetUp | GreetSettle | NodUp | NodDown | ShakeLeft | ShakeRight

text \<open>
  What a thread does to the outside, in the order it does it: a motion command, a
  \<open>time.sleep\<close> (milliseconds), a \<open>tts.speak\<close> call with its text, a recording from
  the microphone, a recogniser call on a file, the deletion of a file, a language-model
  request with its messages, a line printed.
\<close>

datatype effect =
    Move motion | Sleep nat | Speak string | RecordMic string | Transcribe string
  | Unlink string | Request "message list" | Print string

subsection \<open>The speaking animation\<close>

text \<open>
  \<^verbatim>\<open>
  def _speaking_animation(self):
      while self._speaking:                      # AtWhile
          self.robot.goto_target(z=3, 0.3)       # AtMove1
          if not self._speaking:                 # AtCheck1
              break
          self.robot.goto_target(z=-3, 0.3)      # AtMove2
          if not self._speaking:                 # AtCheck2
              break
  \<close>
  The thread is a program counter; \<open>anim_step flag pc\<close> executes the statement at
  \<open>pc\<close>, where \<open>flag\<close> is the value of \<open>self._speaking\<close> at that moment, and returns
  the next program counter and the motion commands issued.
\<close>

datatype anim_pc = AtWhile | AtMove1 | AtCheck1 | AtMove2 | AtCheck2 | Exited

fun anim_step :: "bool \<Rightarrow> anim_pc \<Rightarrow> anim_pc \<times> motion list" where
  "anim_step flag AtWhile = (if flag then (AtMove1, []) else (Exited, []))"
| "anim_step flag AtMove1 = (AtCheck1, [SpeakLeft])"
| "anim_step flag AtCheck1 = (if \<not> flag then (Exited, []) else (AtMove2, []))"
| "anim_step flag AtMove2 = (AtCheck2, [SpeakRight])"
| "anim_step flag AtCheck2 = (if \<not> flag then (Exited, []) else (AtWhile, []))"
| "anim_step flag Exited = (Exited, [])"

text \<open>
  The thread run for as many statements as the list is long; the list gives the value
  of the flag when each statement executes.
\<close>

fun anim_run :: "bool list \<Rightarrow> anim_pc \<Rightarrow> anim_pc \<times> motion list" where
  "anim_run [] pc = (pc, [])"
| "anim_run (flag # flags) pc =
     (let (pc1, ms1) = anim_step flag pc; (pc2, ms2) = anim_run flags pc1
      in (pc2, ms1 @ ms2))"

subsection \<open>Threads and the state\<close>

text \<open>
  A background thread that is running: a straight-line thread with the effects it still
  has to perform (the gesture and reset threads), the speaking animation at a program
  counter, or the \<open>_process_audio\<close> worker with the path it was given.
\<close>

datatype thread = OneShot "effect list" | SpeakingAnimation anim_pc | ProcessAudio string

text \<open>
  The mutable fields of \<open>InteractiveChat\<close> (\<open>is_recording\<close>, \<open>is_processing\<close>,
  \<open>running\<close>), of its \<open>RobotExpressions\<close> (\<open>_speaking\<close>, \<open>_listening\<close>), its
  \<open>AudioRecorder\<close> and the history of its \<open>ConversationLLM\<close>, with the running
  threads in the order they were started and the effects performed so far.
\<close>

record state =
  is_recording :: bool
  is_processing :: bool
  running :: bool
  speaking :: bool
  listening :: bool
  recorder :: recorder
  conversation_history :: "message list"
  threads :: "thread list"
  trace :: "effect list"

definition init :: state where
  "init = \<lparr>is_recording = False, is_processing = False, running = True, speaking = False,
           listening = False, recorder = new_recorder, conversation_history = [],
           threads = [], trace = []\<rparr>"

definition emit :: "effect list \<Rightarrow> state \<Rightarrow> state" where
  "emit es s = s\<lparr>trace := trace s @ es\<rparr>"

text \<open>\<open>threading.Thread(target=..., daemon=True).start()\<close>.\<close>

definition start_thread :: "thread \<Rightarrow> state \<Rightarrow> state" where
  "start_thread t s = s\<lparr>threads := threads s @ [t]\<rparr>"

subsection \<open>The expressions\<close>

definition idle_effects :: "effect list" where
  "idle_effects = [Move Neutral]"

definition thinking_effects :: "effect list" where
  "thinking_effects = [Move ThinkPose, Sleep 300]"

definition happy_effects :: "effect list" where
  "happy_effects = [Move HappyUp, Move HappyDown, Move HappyUp, Move HappyDown]"

definition sad_effects :: "effect list" where
  "sad_effects = [Move SadPose]"

definition greeting_effects :: "effect list" where
  "greeting_effects = [Move GreetUp, Sleep 300, Move GreetSettle]"

definition idle :: "state \<Rightarrow> state" where
  "idle s = emit idle_effects s"

definition listening_start :: "state \<Rightarrow> state" where
  "listening_start s = emit [Move ListenPose] (s\<lparr>listening := True\<rparr>)"

definition listening_stop :: "state \<Rightarrow> state" where
  "listening_stop s = idle (s\<lparr>listening := False\<rparr>)"

definition thinking :: "state \<Rightarrow> state" where
  "thinking s = emit thinking_effects s"

definition happy :: "state \<Rightarrow> state" where
  "happy s = emit happy_effects s"

text \<open>
  \<^verbatim>\<open>
  def speaking_start(self):
      self._speaking = True
      threading.Thread(target=self._speaking_animation, daemon=True).start()

  def speaking_stop(self):
      self._speaking = False
      time.sleep(0.1)
      self.idle()
  \<close>
\<close>

definition speaking_start :: "state \<Rightarrow> state" where
  "speaking_start s = start_thread (SpeakingAnimation AtWhile) (s\<lparr>speaking := True\<rparr>)"

definition speaking_stop :: "state \<Rightarrow> state" where
  "speaking_stop s = idle (emit [Sleep 100] (s\<lparr>speaking := False\<rparr>))"

text \<open>
  One statement of the \<open>i\<close>-th running thread. A straight-line thread performs its
  next effect and ends after its last one; a \<open>tts.speak\<close> that raises (\<open>tts\<close> is the
  outcome of the call, should the next effect be one) ends the thread there, since the
  gesture threads catch nothing. The speaking animation executes the statement at its
  program counter and ends when that takes it out of the loop. The worker is advanced
  by \<open>process_audio\<close> below.
\<close>

definition is_Speak :: "effect \<Rightarrow> bool" where
  "is_Speak e = (case e of Speak t \<Rightarrow> True | _ \<Rightarrow> False)"

definition end_thread :: "nat \<Rightarrow> state \<Rightarrow> state" where
  "end_thread i s = s\<lparr>threads := take i (threads s) @ drop (Suc i) (threads s)\<rparr>"

definition thread_step :: "nat \<Rightarrow> error + unit \<Rightarrow> state \<Rightarrow> state" where
  "thread_step i tts s =
     (if i < length (threads s) then
        (case threads s ! i of
           OneShot es \<Rightarrow>
             (case es of
                [] \<Rightarrow> end_thread i s
              | e # rest \<Rightarrow>
                  if rest = [] \<or> (is_Speak e \<and> isl tts) then emit [e] (end_thread i s)
                  else emit [e] (s\<lparr>threads := (threads s)[i := OneShot rest]\<rparr>))
         | SpeakingAnimation pc \<Rightarrow>
             (let (pc1, ms) = anim_step (speaking s) pc
              in if pc1 = Exited then end_thread i s
                 else emit (map Move ms) (s\<lparr>threads := (threads s)[i := SpeakingAnimation pc1]\<rparr>))
         | ProcessAudio path \<Rightarrow> s)
      else s)"



section \<open>InteractiveChat\<close>

text \<open>
  The audio device as the orchestrator sees it: the stream the next \<open>pyaudio.open\<close>
  returns, the name the next temporary file gets, and what the reader threads do while
  the next \<open>stop_recording\<close> sleeps.
\<close>

record device =
  new_stream :: nat
  temp_path :: string
  grace_period :: "reader_event list"

definition goodbye_words :: "string list" where
  "goodbye_words = [''bye'', ''goodbye'', ''see you'', ''quit'', ''exit'']"

text \<open>\<open>any(word in text.lower() for word in words)\<close>.\<close>

definition any_word_in :: "string list \<Rightarrow> string \<Rightarrow> bool" where
  "any_word_in ws text = list_ex (\<lambda>word. py_in word (py_lower text)) ws"

definition apology :: string where
  "apology = ''I didn't catch that. Could you try again?''"

definition farewell :: string where
  "farewell = ''Goodbye! It was lovely talking with you. Take care!''"

definition hello :: string where
  "hello = ''Hello! I'm Reachy. How can I help you today?''"

definition error_text :: "error \<Rightarrow> string" where
  "error_text e =
     (case e of TranscriberFailed \<Rightarrow> ''transcriber failed''
      | ResponderFailed \<Rightarrow> ''responder failed''
      | SynthesizerFailed \<Rightarrow> ''synthesizer failed'')"

text \<open>The bodies of the threads that the hotkeys start.\<close>

definition do_greeting_effects :: "effect list" where
  "do_greeting_effects = greeting_effects @ [Speak hello] @ idle_effects"

definition nod_yes_effects :: "effect list" where
  "nod_yes_effects = concat (replicate 3 [Move NodUp, Move NodDown]) @ idle_effects"

definition shake_no_effects :: "effect list" where
  "shake_no_effects = concat (replicate 3 [Move ShakeLeft, Move ShakeRight]) @ idle_effects"

text \<open>
  \<^verbatim>\<open>
  def _start_recording(self):
      if self.is_recording or self.is_processing:
          return
      self.is_recording = True
      print("\n[Recording... speak now]")
      self.expressions.listening_start()
      self.recorder.start_recording()
  \<close>
\<close>

definition chat_start_recording :: "device \<Rightarrow> state \<Rightarrow> state" where
  "chat_start_recording d s =
     (if is_recording s \<or> is_processing s then s
      else
        let s1 = emit [Print ''\<newline>[Recording... speak now]''] (s\<lparr>is_recording := True\<rparr>);
            s2 = listening_start s1
        in s2\<lparr>recorder := start_recording (new_stream d) (recorder s2)\<rparr>)"

text \<open>
  \<^verbatim>\<open>
  def _stop_and_process(self):
      if not self.is_recording:
          return
      self.is_recording = False
      self.is_processing = True
      print("[Processing...]")
      audio_path = self.recorder.stop_recording()
      self.expressions.listening_stop()
      if audio_path:
          threading.Thread(target=self._process_audio, args=(audio_path,), daemon=True).start()
      else:
          print("[No audio recorded]")
          self.is_processing = False
  \<close>
  \<open>truthy\<close> is the truth value Python gives an optional string.
\<close>

definition truthy :: "string option \<Rightarrow> bool" where
  "truthy p = (case p of None \<Rightarrow> False | Some x \<Rightarrow> x \<noteq> [])"

definition chat_stop_and_process :: "device \<Rightarrow> state \<Rightarrow> state" where
  "chat_stop_and_process d s =
     (if \<not> is_recording s then s
      else
        let s1 = emit [Print ''[Processing...]''] (s\<lparr>is_recording := False, is_processing := True\<rparr>);
            (r, audio_path) = stop_recording (temp_path d) (grace_period d) (recorder s1);
            s2 = listening_stop (s1\<lparr>recorder := r\<rparr>);
            no_audio = (emit [Print ''[No audio recorded]''] s2)\<lparr>is_processing := False\<rparr>
        in (case audio_path of
              None \<Rightarrow> no_audio
            | Some path \<Rightarrow> if truthy audio_path then start_thread (ProcessAudio path) s2 else no_audio))"

text \<open>
  \<^verbatim>\<open>
  def _on_press(self, key):
      try:
          if hasattr(key, 'char') and key.char:
              char = key.char.lower()
              if char == 'q':
                  print("\nQuitting..."); self.running = False; return False
              elif char == 'g':
                  print("[Greeting]")
                  threading.Thread(target=self._do_greeting, daemon=True).start()
              elif char == 'h': ... self.expressions.happy ...
              elif char == 's': ... self.expressions.sad ...
              elif char == 't': ... self.expressions.thinking ...
              elif char == 'n': ... self._nod_yes ...
              elif char == 'm': ... self._shake_no ...
              elif char == 'r':
                  print("[Reset to idle]")
                  threading.Thread(target=self.expressions.idle, daemon=True).start()
          elif key == keyboard.Key.space:
              if not self.is_recording and not self.is_processing:
                  self._start_recording()
          elif key == keyboard.Key.enter:
              if self.is_recording:
                  self._stop_and_process()
              elif not self.is_processing:
                  self._start_recording()
      except Exception as e:
          print(f"Key error: {e}")
  \<close>
  \<open>KeyChar c\<close> is a key with a character, \<open>KeyOther\<close> any key without one other than
  space and enter. The value \<open>False\<close> that stops the listener is returned exactly when
  \<open>running\<close> is cleared.
\<close>

datatype key = KeyChar char | KeySpace | KeyEnter | KeyOther

definition hotkey :: "string \<Rightarrow> effect list \<Rightarrow> state \<Rightarrow> state" where
  "hotkey label body s = start_thread (OneShot body) (emit [Print label] s)"

definition on_press :: "device \<Rightarrow> key \<Rightarrow> state \<Rightarrow> state" where
  "on_press d k s =
     (case k of
        KeyChar c \<Rightarrow>
          (let char = lower_char c
           in if char = CHR ''q'' then (emit [Print ''\<newline>Quitting...''] s)\<lparr>running := False\<rparr>
              else if char = CHR ''g'' then hotkey ''[Greeting]'' do_greeting_effects s
              else if char = CHR ''h'' then hotkey ''[Happy]'' happy_effects s
              else if char = CHR ''s'' then hotkey ''[Sad]'' sad_effects s
              else if char = CHR ''t'' then hotkey ''[Thinking]'' thinking_effects s
              else if char = CHR ''n'' then hotkey ''[Nodding yes]'' nod_yes_effects s
              else if char = CHR ''m'' then hotkey ''[Shaking no]'' shake_no_effects s
              else if char = CHR ''r'' then hotkey ''[Reset to idle]'' idle_effects s
              else s)
      | KeySpace \<Rightarrow>
          if \<not> is_recording s \<and> \<not> is_processing s then chat_start_recording d s else s
      | KeyEnter \<Rightarrow>
          if is_recording s then chat_stop_and_process d s
          else if \<not> is_processing s then chat_start_recording d s
          else s
      | KeyOther \<Rightarrow> s)"

text \<open>
  \<^verbatim>\<open>
  def _on_release(self, key):
      try:
          if key == keyboard.Key.space:
              if self.is_recording:
                  self._stop_and_process()
      except Exception:
          pass
  \<close>
\<close>

definition on_release :: "device \<Rightarrow> key \<Rightarrow> state \<Rightarrow> state" where
  "on_release d k s =
     (case k of
        KeySpace \<Rightarrow> if is_recording s then chat_stop_and_process d s else s
      | _ \<Rightarrow> s)"

text \<open>The reader threads of the recorder run, between two key events.\<close>

definition readers_run :: "reader_event list \<Rightarrow> state \<Rightarrow> state" where
  "readers_run evs s = s\<lparr>recorder := fold reader_step evs (recorder s)\<rparr>"

subsection \<open>The worker: \<open>_process_audio\<close>\<close>

text \<open>
  \<^verbatim>\<open>
  def _process_audio(self, audio_path):
      try:
          text = self.stt.transcribe(audio_path)
          os.unlink(audio_path)
          if not text.strip():
              print("You: (silence)")
              self.tts.speak("I didn't catch that. Could you try again?")
              self.is_processing = False
              return
          print(f"You: {text}")
          if any(word in text.lower() for word in ["bye", "goodbye", "see you", "quit", "exit"]):
              print("Reachy: Goodbye! Take care!")
              self.expressions.happy()
              self.tts.speak("Goodbye! It was lovely talking with you. Take care!")
              self.expressions.idle()
              self.is_processing = False
              return
          self.expressions.thinking()
          response = self.llm.chat(text)
          print(f"Reachy: {response}")
          self.expressions.speaking_start()
          self.tts.speak(response, wait=True)
          self.expressions.speaking_stop()
      except Exception as e:
          print(f"Error processing: {e}")
      finally:
          self.is_processing = False
  \<close>
  The worker makes one recogniser call, at most one language-model request and at most
  one \<open>tts.speak\<close> call; \<open>stt\<close>, \<open>llm\<close> and \<open>tts\<close> are their outcomes. The method
  is cut where it blocks in the language-model request, so that what other threads do
  meanwhile can be placed between the two halves: \<open>process_audio_request\<close> runs up to
  the moment the request is sent (or to the return, on the earlier paths), and
  \<open>process_audio_reply\<close> runs from the outcome of the request to the return.
  \<open>process_audio\<close> is the method run without interruption. When the method returns,
  its thread ends.
\<close>

definition finally_clause :: "string \<Rightarrow> state \<Rightarrow> state" where
  "finally_clause path s =
     s\<lparr>is_processing := False, threads := remove1 (ProcessAudio path) (threads s)\<rparr>"

definition except_clause :: "string \<Rightarrow> error \<Rightarrow> state \<Rightarrow> state" where
  "except_clause path e s =
     finally_clause path (emit [Print (''Error processing: '' @ error_text e)] s)"

datatype progress = Returned state | InRequest state

definition process_audio_request ::
  "string \<Rightarrow> error + string \<Rightarrow> error + unit \<Rightarrow> state \<Rightarrow> progress" where
  "process_audio_request path stt tts s =
     (case transcribe stt of
        Inl e \<Rightarrow> Returned (except_clause path e (emit [Transcribe path] s))
      | Inr text \<Rightarrow>
          let s1 = emit [Transcribe path, Unlink path] s
          in if is_silence text then
               (let s2 = emit [Print ''You: (silence)'', Speak apology] s1
                in case tts of
                     Inl e \<Rightarrow> Returned (except_clause path e s2)
                   | Inr u \<Rightarrow> Returned (finally_clause path (s2\<lparr>is_processing := False\<rparr>)))
             else
               let s2 = emit [Print (''You: '' @ text)] s1
               in if any_word_in goodbye_words text then
                    (let s3 = emit [Speak farewell]
                                (happy (emit [Print ''Reachy: Goodbye! Take care!''] s2))
                     in case tts of
                          Inl e \<Rightarrow> Returned (except_clause path e s3)
                        | Inr u \<Rightarrow>
                            Returned (finally_clause path ((idle s3)\<lparr>is_processing := False\<rparr>)))
                  else
                    let s3 = thinking s2;
                        h = chat_append_user text (conversation_history s3)
                    in InRequest (emit [Request (chat_messages h)] (s3\<lparr>conversation_history := h\<rparr>)))"

definition process_audio_reply ::
  "string \<Rightarrow> error + string \<Rightarrow> error + unit \<Rightarrow> state \<Rightarrow> state" where
  "process_audio_reply path llm tts s =
     (case chat_receive llm (conversation_history s) of
        (h, Inl e) \<Rightarrow> except_clause path e (s\<lparr>conversation_history := h\<rparr>)
      | (h, Inr response) \<Rightarrow>
          let s1 = emit [Print (''Reachy: '' @ response)] (s\<lparr>conversation_history := h\<rparr>);
              s2 = emit [Speak response] (speaking_start s1)
          in case tts of
               Inl e \<Rightarrow> except_clause path e s2
             | Inr u \<Rightarrow> finally_clause path (speaking_stop s2))"

definition process_audio ::
  "string \<Rightarrow> error + string \<Rightarrow> error + string \<Rightarrow> error + unit \<Rightarrow> state \<Rightarrow> state" where
  "process_audio path stt llm tts s =
     (case process_audio_request path stt tts s of
        Returned s1 \<Rightarrow> s1
      | InRequest s1 \<Rightarrow> process_audio_reply path llm tts s1)"

section \<open>VoiceInteraction\<close>




definition speak :: "string \<Rightarrow> error + unit \<Rightarrow> state \<Rightarrow> error + state" where
  "speak text tts s =
     (let s1 = emit [Speak text] (speaking_start s)
      in case tts of Inl e \<Rightarrow> Inl e | Inr u \<Rightarrow> Inr (speaking_stop s1))"










definition motions :: "state \<Rightarrow> motion list" where
  "motions s = concat (map (\<lambda>e. case e of Move m \<Rightarrow> [m] | _ \<Rightarrow> []) (trace s))"

section \<open>Runs used below\<close>

text \<open>
  The worker with other threads running while its language-model request is in flight:
  \<open>others\<close> is what they do to the state between the sending of the request and its
  outcome.
\<close>

definition process_audio_meanwhile ::
  "string \<Rightarrow> error + string \<Rightarrow> error + string \<Rightarrow> error + unit \<Rightarrow> (state \<Rightarrow> state) \<Rightarrow> state \<Rightarrow> state" where
  "process_audio_meanwhile path stt llm tts others s =
     (case process_audio_request path stt tts s of
        Returned s1 \<Rightarrow> s1
      | InRequest s1 \<Rightarrow> process_audio_reply path llm tts (others s1))"

text \<open>The thread body that each gesture hotkey starts.\<close>

definition gesture_body :: "char \<Rightarrow> effect list" where
  "gesture_body c =
     (if c = CHR ''g'' then do_greeting_effects
      else if c = CHR ''h'' then happy_effects
      else if c = CHR ''s'' then sad_effects
      else if c = CHR ''n'' then nod_yes_effects
      else shake_no_effects)"


text \<open>
  Two devices. On \<open>dev\<close> the read that is in flight when \<open>stop_recording\<close> clears the
  flag returns a frame during the sleep, and the reader then leaves its loop. On
  \<open>silent_dev\<close> that read raises instead.
\<close>

definition dev :: device where
  "dev = \<lparr>new_stream = 1, temp_path = ''rec.wav'',
           grace_period = [ReadReturns 0 ''frame'', LoopTest 0]\<rparr>"


text \<open>
  States the orchestrator reaches from its initial state: space pressed, the reader
  just started; the reader past its loop test and blocked in its first read, nothing
  captured yet; space released then, on \<open>dev\<close>, the worker started; the happy hotkey
  pressed twice; the speaking animation started and past its loop test.
\<close>

definition listening_state :: state where
  "listening_state = on_press dev KeySpace init"

definition reading_state :: state where
  "reading_state = readers_run [LoopTest 0] listening_state"

definition busy_state :: state where
  "busy_state = on_release dev KeySpace reading_state"





section \<open>Properties of the string functions\<close>













section \<open>Claims\<close>


text \<open>
  C8. \<open>start_recording\<close> called twice in a row, with no stop in between, leaves the
  recorder exactly as the first call left it: the frame buffer, the recording flag, the
  capture stream (the stream \<open>h1\<close> of the first call, whatever stream \<open>h2\<close> a second
  \<open>pyaudio.open\<close> would have returned) and the reader threads.
\<close>

theorem start_recording_idempotent:
  "start_recording h2 (start_recording h1 r) = start_recording h1 r"
  by (simp add: start_recording_def)

lemma anim_run_exited: "anim_run flags Exited = (Exited, [])"
  by (induction flags) auto

text \<open>
  C9. The speaking animation reads its flag after each motion segment, not only at the
  head of the loop. Wherever the thread stands when the flag is cleared, it has exited
  after its next two statements and has issued at most one motion command on the way;
  a thread that has just finished its first segment exits at the check that follows,
  without issuing the second.
\<close>

theorem speaking_animation_cancel_latency:
  "fst (anim_run (False # False # flags) pc) = Exited
   \<and> length (snd (anim_run (False # False # flags) pc)) \<le> 1
   \<and> anim_run [False] AtCheck1 = (Exited, [])
   \<and> anim_run [False] AtCheck2 = (Exited, [])"
  by (cases pc) (simp_all add: anim_run_exited)

lemma chats_length:
  "length (chats (map (\<lambda>m. (m, Inr (reply m))) ms) h) = length h + 2 * length ms"
  by (induction ms arbitrary: h) (simp_all add: chat_def chat_receive_def chat_append_user_def)

text \<open>
  C5, as stated, fails: eleven successful \<open>chat\<close> calls on an empty history leave 22
  stored entries, more than 10 entries and more than 10 exchanges.
\<close>

theorem history_exceeds_bound:
  "\<not> length (chats (replicate 11 (''hi'', Inr ''hello'')) []) \<le> 20"
  by (simp add: numeral_eq_Suc chat_def chat_receive_def chat_append_user_def)

text \<open>
  C5, amended. The history is an ordered sequence of role and content entries to which
  \<open>chat\<close> only appends: the user entry, then (when the request returns) the assistant
  entry; nothing is evicted, so \<open>n\<close> successful calls add \<open>2 * n\<close> entries. Only the
  request sent to the language model is bounded: the system prompt followed by the last
  ten entries of the history, the new user entry included.
\<close>

theorem chat_appends_and_sends_last_ten:
  "fst (chat m (Inr r) h) = h @ [(User, m), (Assistant, r)]
   \<and> fst (chat m (Inl e) h) = h @ [(User, m)]
   \<and> length (chats (map (\<lambda>m. (m, Inr (reply m))) ms) h) = length h + 2 * length ms
   \<and> chat_messages (chat_append_user m h) =
       (System, system_prompt) # drop (length h + 1 - 10) (h @ [(User, m)])
   \<and> length (chat_messages h) = 1 + min 10 (length h)"
  by (simp add: chats_length)
     (simp add: chat_def chat_receive_def chat_append_user_def chat_messages_def py_last_def)

section \<open>The orchestrator\<close>

lemmas expr_defs = emit_def start_thread_def idle_def idle_effects_def listening_start_def
  listening_stop_def thinking_def thinking_effects_def happy_def happy_effects_def
  speaking_start_def speaking_stop_def

lemma listening_state_eq:
  "listening_state =
     \<lparr>is_recording = True, is_processing = False, running = True, speaking = False,
      listening = True,
      recorder = \<lparr>rec_frames = [], rec_is_recording = True, rec_stream = Some 1,
                  rec_readers = [AtLoopTest]\<rparr>,
      conversation_history = [], threads = [],
      trace = [Print ''\<newline>[Recording... speak now]'', Move ListenPose]\<rparr>"
  by (simp add: listening_state_def on_press_def chat_start_recording_def init_def dev_def
      new_recorder_def start_recording_def expr_defs)

lemma reading_state_eq:
  "reading_state =
     \<lparr>is_recording = True, is_processing = False, running = True, speaking = False,
      listening = True,
      recorder = \<lparr>rec_frames = [], rec_is_recording = True, rec_stream = Some 1,
                  rec_readers = [InRead]\<rparr>,
      conversation_history = [], threads = [],
      trace = [Print ''\<newline>[Recording... speak now]'', Move ListenPose]\<rparr>"
  by (simp add: reading_state_def listening_state_eq readers_run_def reader_step_def)

lemma busy_state_eq:
  "busy_state =
     \<lparr>is_recording = False, is_processing = True, running = True, speaking = False,
      listening = False,
      recorder = \<lparr>rec_frames = [''frame''], rec_is_recording = False, rec_stream = None,
                  rec_readers = []\<rparr>,
      conversation_history = [], threads = [ProcessAudio ''rec.wav''],
      trace = [Print ''\<newline>[Recording... speak now]'', Move ListenPose,
               Print ''[Processing...]'', Move Neutral]\<rparr>"
  by (simp add: busy_state_def reading_state_eq on_release_def chat_stop_and_process_def
      stop_recording_def after_grace_def reader_step_def end_reader_def truthy_def dev_def
      expr_defs)


lemma hotkey_fields:
  "is_recording (hotkey l b s) = is_recording s"
  "is_processing (hotkey l b s) = is_processing s"
  "speaking (hotkey l b s) = speaking s"
  "recorder (hotkey l b s) = recorder s"
  "conversation_history (hotkey l b s) = conversation_history s"
  "threads (hotkey l b s) = threads s @ [OneShot b]"
  "trace (hotkey l b s) = trace s @ [Print l]"
  by (simp_all add: hotkey_def emit_def start_thread_def)

lemma thread_step_flags:
  "is_recording (thread_step i tts s) = is_recording s \<and>
   is_processing (thread_step i tts s) = is_processing s"
  by (simp add: thread_step_def end_thread_def emit_def Let_def
      split: thread.split list.split prod.split)

text \<open>
  C6, as stated, fails: with the worker running (the processing flag set), the happy
  hotkey is not rejected; it starts its animation thread as in any other state.
\<close>

theorem gesture_accepted_while_processing:
  "is_processing busy_state
   \<and> on_press dev (KeyChar CHR ''h'') busy_state \<noteq> busy_state
   \<and> threads (on_press dev (KeyChar CHR ''h'') busy_state)
       = [ProcessAudio ''rec.wav'', OneShot happy_effects]"
  by (simp add: busy_state_eq on_press_def hotkey_def lower_char_def expr_defs)

text \<open>
  C6, amended. The gesture hotkeys (greeting, happy, sad, nod, shake-no) carry no
  guard: in every state, recording or processing included, a press starts a one-shot
  thread with the gesture's body. Neither the press nor any statement of a background
  thread changes the recording and processing flags, so the turn state is after the
  gesture what it was before.
\<close>

theorem gesture_hotkeys_unguarded:
  assumes "lower_char c \<in> set ''ghsnm''"
  shows "threads (on_press d (KeyChar c) s) = threads s @ [OneShot (gesture_body (lower_char c))]
     \<and> is_recording (on_press d (KeyChar c) s) = is_recording s
     \<and> is_processing (on_press d (KeyChar c) s) = is_processing s
     \<and> is_recording (thread_step i tts s) = is_recording s
     \<and> is_processing (thread_step i tts s) = is_processing s"
  using assms
  by (auto simp add: on_press_def hotkey_fields thread_step_flags gesture_body_def)

theorem gesture_hotkeys_unguarded_witness:
  "threads (on_press dev (KeyChar CHR ''n'') busy_state)
     = [ProcessAudio ''rec.wav'', OneShot nod_yes_effects]
   \<and> is_processing (on_press dev (KeyChar CHR ''n'') busy_state)"
  using gesture_hotkeys_unguarded [of "CHR ''n''" dev busy_state 0 "Inr ()"]
  by (simp add: lower_char_def gesture_body_def busy_state_eq)












section \<open>The worker\<close>

lemma process_audio_uninterrupted:
  "process_audio_meanwhile path stt llm tts (\<lambda>s. s) s = process_audio path stt llm tts s"
  by (simp add: process_audio_meanwhile_def process_audio_def)

lemma any_word_hello: "\<not> any_word_in goodbye_words ''hello''"
  by (simp add: any_word_in_def goodbye_words_def py_lower_def lower_char_def)

lemma strip_hello: "py_strip ''hello'' = ''hello''"
  by (simp add: py_strip_def py_isspace_def)




lemma is_processing_finally: "is_processing (finally_clause path s) = False"
  by (simp add: finally_clause_def)



lemma process_audio_clears_flag: "is_processing (process_audio path stt llm tts s) = False"
  by (simp add: process_audio_def process_audio_request_def process_audio_reply_def
      except_clause_def is_processing_finally Let_def
      split: sum.split prod.split progress.split)

lemma anim_step_True_live: "pc \<noteq> Exited \<Longrightarrow> fst (anim_step True pc) \<noteq> Exited"
  by (cases pc) simp_all

lemma anim_run_True_live: "pc \<noteq> Exited \<Longrightarrow> fst (anim_run (replicate n True) pc) \<noteq> Exited"
proof (induction n arbitrary: pc)
  case 0
  then show ?case by simp
next
  case (Suc n)
  from Suc.prems have "fst (anim_step True pc) \<noteq> Exited" by (rule anim_step_True_live)
  then have "fst (anim_run (replicate n True) (fst (anim_step True pc))) \<noteq> Exited"
    by (rule Suc.IH)
  then show ?case by (simp add: split_beta)
qed

text \<open>
  C4. Whatever the recogniser, the language model and the synthesiser return or raise,
  the worker ends with the processing flag clear. That is all the handler restores:
  when the synthesiser raises on the reply, after \<open>speaking_start\<close>, the worker skips
  \<open>speaking_stop\<close>, so the speaking flag stays set, no idle motion is issued, and the
  speaking animation, which leaves its loop only on a clear flag, runs on.
\<close>

theorem synthesizer_error_leaves_speaking:
  "is_processing (process_audio path stt llm tts s) = False
   \<and> speaking (process_audio ''rec.wav'' (Inr ''hello'') (Inr ''Hi!'') (Inl SynthesizerFailed)
        busy_state) = True
   \<and> threads (process_audio ''rec.wav'' (Inr ''hello'') (Inr ''Hi!'') (Inl SynthesizerFailed)
        busy_state) = [SpeakingAnimation AtWhile]
   \<and> motions (process_audio ''rec.wav'' (Inr ''hello'') (Inr ''Hi!'') (Inl SynthesizerFailed)
        busy_state) = [ListenPose, Neutral, ThinkPose]
   \<and> (\<forall>n. fst (anim_run (replicate n True) AtWhile) \<noteq> Exited)"
  by (simp add: process_audio_clears_flag anim_run_True_live)
     (simp add: process_audio_def process_audio_request_def process_audio_reply_def
      transcribe_def strip_hello is_silence_def any_word_hello busy_state_eq
      chat_receive_def chat_append_user_def
      finally_clause_def except_clause_def expr_defs motions_def Let_def)

section \<open>Goodbye detection\<close>







end
